theory Spec2Isabelle
  imports Main
begin

section \<open>Values of the Python program\<close>

text \<open>
  JSON documents as Python holds them after parsing. A Python dict is an association
  list whose keys are looked up with \<open>map_of\<close> and replaced in place by \<open>setitem\<close>.
\<close>

datatype json =
    JNull
  | JBool bool
  | JNum int
  | JStr string
  | JArr "json list"
  | JObj "(string \<times> json) list"

type_synonym dict = "(string \<times> json) list"

text \<open>The exceptions that the module raises or lets through.\<close>

datatype error =
    ValidationError
  | AttributeError
  | KeyError
  | ValueError
  | DoesNotExist
  | MultipleObjectsReturned

text \<open>\<^verbatim>\<open>d[k] = v\<close> on a dict.\<close>

fun setitem :: "dict \<Rightarrow> string \<Rightarrow> json \<Rightarrow> dict" where
  "setitem [] k v = [(k, v)]"
| "setitem ((k', v') # d) k v =
     (if k' = k then (k, v) # d else (k', v') # setitem d k v)"

text \<open>\<^verbatim>\<open>d[k]\<close> on a dict: a missing key raises KeyError.\<close>

definition getitem :: "dict \<Rightarrow> string \<Rightarrow> error + json" where
  "getitem d k = (case map_of d k of None \<Rightarrow> Inl KeyError | Some v \<Rightarrow> Inr v)"

text \<open>\<^verbatim>\<open>d.get(k, default)\<close> on a dict.\<close>

definition dict_get :: "dict \<Rightarrow> string \<Rightarrow> json \<Rightarrow> json" where
  "dict_get d k dflt = (case map_of d k of None \<Rightarrow> dflt | Some v \<Rightarrow> v)"

text \<open>
  \<^verbatim>\<open>x.get(k)\<close> and \<^verbatim>\<open>x.copy()\<close> on a value taken out of a document. Only a dict has
  these methods: on None, a string, a number, a boolean or a list (Python 2, which
  this code base ran on; under Python 3 a list has \<^verbatim>\<open>copy\<close> and the item assignment
  that follows raises TypeError instead) the attribute access raises AttributeError.
  The copy is shallow; values are immutable here, so it is the dict itself.
\<close>

definition py_get :: "json \<Rightarrow> string \<Rightarrow> error + json" where
  "py_get x k = (case x of JObj d \<Rightarrow> Inr (dict_get d k JNull) | _ \<Rightarrow> Inl AttributeError)"

definition py_copy :: "json \<Rightarrow> error + dict" where
  "py_copy x = (case x of JObj d \<Rightarrow> Inr d | _ \<Rightarrow> Inl AttributeError)"

text \<open>\<^verbatim>\<open>s.startswith(p)\<close>.\<close>

definition startswith :: "string \<Rightarrow> string \<Rightarrow> bool" where
  "startswith s p = (take (length p) s = p)"

text \<open>
  The second component of \<^verbatim>\<open>os.path.splitext(p)\<close> (POSIX): the part of the last path
  component from its last dot on, empty when that component has no dot after its
  leading dots.
\<close>

definition splitext_ext :: "string \<Rightarrow> string" where
  "splitext_ext p =
     (let base = rev (takeWhile (\<lambda>c. c \<noteq> CHR ''/'') (rev p));
          stem = dropWhile (\<lambda>c. c = CHR ''.'') base
      in if CHR ''.'' \<in> set stem
         then CHR ''.'' # rev (takeWhile (\<lambda>c. c \<noteq> CHR ''.'') (rev stem))
         else [])"

section \<open>The analysed badge payload, the options and the configuration\<close>

type_synonym user = nat

type_synonym error_record = "string \<times> string \<times> json"

text \<open>The nested \<^verbatim>\<open>abi.issuer\<close> and \<^verbatim>\<open>abi.badge\<close> objects: \<open>version = None\<close> is an
  undetected Open Badges version.\<close>

record component =
  version :: "string option"
  version_errors :: json

text \<open>
  The payload wrapper (AnalyzedBadgeInstance, an external collaborator). The two
  attributes whose access the source guards with \<^verbatim>\<open>except AttributeError\<close> are
  options: \<open>None\<close> is the access that raises AttributeError.
\<close>

record abi =
  is_valid :: bool
  data :: dict
  issuer_url :: "string option"
  badge_url :: "string option"
  instance_url :: string
  abi_recipient_id :: string
  abi_issuer :: component
  abi_badge :: component
  all_errors :: "error_record list"

record image_file =
  name :: string

text \<open>
  The keyword arguments the module reads. \<open>kw_recipient_user = None\<close> is the key
  being absent, \<open>Some None\<close> the key given with the value None. For \<^verbatim>\<open>image\<close> the
  source only asks \<^verbatim>\<open>kwargs.get('image') is not None\<close>, which does not tell the two
  apart.
\<close>

record kwargs =
  kw_recipient_user :: "user option option"
  kw_image :: "image_file option"

definition kwargs_get_recipient_user :: "kwargs \<Rightarrow> user option" where
  "kwargs_get_recipient_user kw = (case kw_recipient_user kw of None \<Rightarrow> None | Some v \<Rightarrow> v)"

record settings =
  MEDIA_URL :: string
  HTTP_ORIGIN :: string

text \<open>
  What the module takes from outside: the Django settings, the two helpers of
  \<^verbatim>\<open>.utils\<close>, the value \<^verbatim>\<open>str(uuid.uuid4())\<close> drawn by the call, and the name under
  which the file field holds the image once \<^verbatim>\<open>Model.save()\<close> has committed a file
  of a given name (the field's upload directory and the storage backend decide).
\<close>

record env =
  settings :: settings
  find_recipient_user :: "string \<Rightarrow> user option"
  baked_image_from_abi :: "abi \<Rightarrow> image_file"
  uuid4 :: string
  storage_name :: "string \<Rightarrow> string"

section \<open>The three tables\<close>

text \<open>
  Modelled from the spec: the fields \<open>json\<close> (of AbstractIssuer, AbstractBadgeClass,
  AbstractBadgeInstance) and \<open>image\<close> (of AbstractBadgeInstance) are declared in
  \<^verbatim>\<open>mainsite.models\<close>, which is not among the sources; they are taken from their
  uses here and from the data model of the specification. \<open>pk\<close> is the automatic
  primary key of a Django model; keys start at 1, and 0 stands for the key None of
  an object that has not been saved.
\<close>

record local_component =
  pk :: nat
  json :: dict
  errors :: "error_record list"
  url :: string

type_synonym Issuer = local_component

record BadgeClass = local_component +
  bc_issuer :: nat

record BadgeInstance = local_component +
  badgeclass :: "nat option"
  issuer :: "nat option"
  recipient_id :: string
  recipient_user :: "user option"
  image :: image_file

text \<open>
  The observable effects besides the rows: calls of the external helpers and the
  saves, in the order they happen. A save carries the object as it is written and,
  for a badge instance, its \<^verbatim>\<open>update_fields\<close>.
\<close>

datatype event =
    FindRecipientUser string
  | BakedImageFromAbi
  | SaveIssuer Issuer
  | SaveBadgeClass BadgeClass
  | SaveBadgeInstance BadgeInstance "string list option"

fun is_instance_save :: "event \<Rightarrow> bool" where
  "is_instance_save (SaveBadgeInstance obj upd) = True"
| "is_instance_save e = False"

fun is_lookup :: "event \<Rightarrow> bool" where
  "is_lookup (FindRecipientUser ident) = True"
| "is_lookup e = False"

record store =
  issuers :: "Issuer list"
  badgeclasses :: "BadgeClass list"
  badgeinstances :: "BadgeInstance list"
  trace :: "event list"

text \<open>\<^verbatim>\<open>cls.objects.get(url=u)\<close>: the one row with that url, DoesNotExist when there is
  none, MultipleObjectsReturned when there are several.\<close>

definition objects_get ::
  "('a local_component_scheme) list \<Rightarrow> string \<Rightarrow> error + 'a local_component_scheme" where
  "objects_get tbl u =
     (case filter (\<lambda>r. url r = u) tbl of
        [] \<Rightarrow> Inl DoesNotExist
      | [r] \<Rightarrow> Inr r
      | _ \<Rightarrow> Inl MultipleObjectsReturned)"

text \<open>The key the database gives to an inserted row.\<close>

definition next_pk :: "('a local_component_scheme) list \<Rightarrow> nat" where
  "next_pk tbl = Suc (foldr max (map pk tbl) 0)"

text \<open>\<^verbatim>\<open>obj.save()\<close> of an object that has a row: UPDATE of every field where the key
  matches.\<close>

definition save_existing ::
  "'a local_component_scheme \<Rightarrow> ('a local_component_scheme) list \<Rightarrow> ('a local_component_scheme) list" where
  "save_existing obj tbl = map (\<lambda>r. if pk r = pk obj then obj else r) tbl"

text \<open>\<^verbatim>\<open>obj.save(update_fields=['json'])\<close>: UPDATE of the json column only.\<close>

definition save_json ::
  "'a local_component_scheme \<Rightarrow> ('a local_component_scheme) list \<Rightarrow> ('a local_component_scheme) list" where
  "save_json obj tbl = map (\<lambda>r. if pk r = pk obj then r\<lparr>json := json obj\<rparr> else r) tbl"

section \<open>Issuer\<close>

definition context_uri :: string where
  "context_uri = ''https://w3id.org/openbadges/v1''"

definition Issuer_from_analyzed_instance ::
  "abi \<Rightarrow> kwargs \<Rightarrow> store \<Rightarrow> (error + Issuer option) \<times> store" where
  "Issuer_from_analyzed_instance abi kw s =
     (if \<not> is_valid abi then (Inl ValidationError, s)
      else case issuer_url abi of
        None \<Rightarrow> (Inr None, s)
      | Some u \<Rightarrow>
         (case objects_get (issuers s) u of
            Inr existing_issuer \<Rightarrow> (Inr (Some existing_issuer), s)
          | Inl e \<Rightarrow>
             if e \<noteq> DoesNotExist then (Inl e, s)
             else
               let issuer_errors =
                     (if version (abi_issuer abi) = None
                      then [(''error.version_detection'',
                             ''Could not determine Open Badges version of Issuer'',
                             version_errors (abi_issuer abi))]
                      else [])
               in (case py_get (dict_get (data abi) ''badge'' (JObj [])) ''issuer'' of
                     Inl e \<Rightarrow> (Inl e, s)
                   | Inr j \<Rightarrow>
                      (case py_copy j of
                         Inl e \<Rightarrow> (Inl e, s)
                       | Inr issuer_json \<Rightarrow>
                          let new_issuer =
                                \<lparr>pk = next_pk (issuers s),
                                 json = setitem issuer_json ''@context'' (JStr context_uri),
                                 errors = issuer_errors,
                                 url = u\<rparr>
                          in (Inr (Some new_issuer),
                              s\<lparr>issuers := issuers s @ [new_issuer],
                                trace := trace s @ [SaveIssuer new_issuer]\<rparr>)))))"

section \<open>BadgeClass\<close>

text \<open>
  \<^verbatim>\<open>new_badgeclass.issuer = None\<close> on the non-nullable foreign key raises ValueError
  in the Django this code ran on (later versions raise IntegrityError in the save
  that follows); either way no badge class is saved.
\<close>

definition BadgeClass_from_analyzed_instance ::
  "abi \<Rightarrow> kwargs \<Rightarrow> store \<Rightarrow> (error + BadgeClass option) \<times> store" where
  "BadgeClass_from_analyzed_instance abi kw s =
     (if \<not> is_valid abi then (Inl ValidationError, s)
      else case badge_url abi of
        None \<Rightarrow> (Inr None, s)
      | Some u \<Rightarrow>
         (case objects_get (badgeclasses s) u of
            Inr existing_badgeclass \<Rightarrow> (Inr (Some existing_badgeclass), s)
          | Inl e \<Rightarrow>
             if e \<noteq> DoesNotExist then (Inl e, s)
             else
               let badgeclass_errors =
                     (if version (abi_badge abi) = None
                      then [(''error.version_detection'',
                             ''Could not determine Open Badges version of BadgeClass'',
                             version_errors (abi_badge abi))]
                      else [])
               in (case py_copy (dict_get (data abi) ''badge'' JNull) of
                    Inl e \<Rightarrow> (Inl e, s)
                  | Inr badgeclass_json \<Rightarrow>
                     (case Issuer_from_analyzed_instance abi kw s of
                        (Inl e, s1) \<Rightarrow> (Inl e, s1)
                      | (Inr None, s1) \<Rightarrow> (Inl ValueError, s1)
                      | (Inr (Some iss), s1) \<Rightarrow>
                         let new_badgeclass =
                               \<lparr>pk = next_pk (badgeclasses s1),
                                json = setitem badgeclass_json ''@context'' (JStr context_uri),
                                errors = badgeclass_errors,
                                url = u,
                                bc_issuer = pk iss\<rparr>
                         in (Inr (Some new_badgeclass),
                             s1\<lparr>badgeclasses := badgeclasses s1 @ [new_badgeclass],
                                trace := trace s1 @ [SaveBadgeClass new_badgeclass]\<rparr>)))))"

section \<open>BadgeInstance\<close>

definition image_url :: "settings \<Rightarrow> BadgeInstance \<Rightarrow> string" where
  "image_url cfg self =
     (if startswith (MEDIA_URL cfg) ''http''
      then MEDIA_URL cfg @ name (image self)
      else HTTP_ORIGIN cfg @ MEDIA_URL cfg @ name (image self))"

text \<open>
  Lines 141 to 175 of the source: the creation of a row when the lookup found none.
  The object is built without a url, so the field keeps its default, the empty
  string. The first save inserts the row and commits the image, after which the
  file field holds the name the storage gave it.
\<close>

definition BadgeInstance_create ::
  "env \<Rightarrow> abi \<Rightarrow> kwargs \<Rightarrow> store \<Rightarrow> (error + BadgeInstance) \<times> store" where
  "BadgeInstance_create ev abi kw s =
     (let s0 = s\<lparr>trace := trace s @ [FindRecipientUser (abi_recipient_id abi)]\<rparr>;
          found = find_recipient_user ev (abi_recipient_id abi);
          ruser = (case kw_recipient_user kw of None \<Rightarrow> found | Some v \<Rightarrow> v)
      in case BadgeClass_from_analyzed_instance abi kw s0 of
           (Inl e, s1) \<Rightarrow> (Inl e, s1)
         | (Inr bc, s1) \<Rightarrow>
            let (img, s2) =
                  (case kw_image kw of
                     Some i \<Rightarrow> (i, s1)
                   | None \<Rightarrow> (baked_image_from_abi ev abi,
                                s1\<lparr>trace := trace s1 @ [BakedImageFromAbi]\<rparr>));
                img_ext = splitext_ext (name img);
                obj0 = \<lparr>pk = 0, json = data abi, errors = all_errors abi, url = [],
                        badgeclass = map_option pk bc, issuer = None,
                        recipient_id = abi_recipient_id abi, recipient_user = ruser,
                        image = img\<lparr>name := ''earned_badge_'' @ uuid4 ev @ img_ext\<rparr>\<rparr>;
                obj1 = obj0\<lparr>json := setitem (json obj0) ''image''
                                       (JStr (image_url (settings ev) obj0))\<rparr>;
                obj2 = (case bc of
                          Some b \<Rightarrow> obj1\<lparr>issuer := Some (bc_issuer b)\<rparr>
                        | None \<Rightarrow> obj1);
                new_instance =
                  obj2\<lparr>pk := next_pk (badgeinstances s2),
                       image := (image obj2)\<lparr>name := storage_name ev (name (image obj2))\<rparr>\<rparr>;
                s3 = s2\<lparr>badgeinstances := badgeinstances s2 @ [new_instance],
                        trace := trace s2 @ [SaveBadgeInstance new_instance None]\<rparr>;
                eurl = image_url (settings ev) new_instance
            in (case getitem (json new_instance) ''image'' of
                 Inl e \<Rightarrow> (Inl e, s3)
               | Inr stored \<Rightarrow>
                  if JStr eurl \<noteq> stored
                  then
                    let fixed = new_instance\<lparr>json := setitem (json new_instance) ''image''
                                                         (JStr eurl)\<rparr>
                    in (Inr fixed,
                        s3\<lparr>badgeinstances := save_json fixed (badgeinstances s3),
                           trace := trace s3 @
                             [SaveBadgeInstance fixed (Some [''json''])]\<rparr>)
                  else (Inr new_instance, s3)))"

definition BadgeInstance_from_analyzed_instance ::
  "env \<Rightarrow> abi \<Rightarrow> kwargs \<Rightarrow> store \<Rightarrow> (error + BadgeInstance) \<times> store" where
  "BadgeInstance_from_analyzed_instance ev abi kw s =
     (if \<not> is_valid abi then (Inl ValidationError, s)
      else case objects_get (badgeinstances s) (instance_url abi) of
        Inr existing_instance \<Rightarrow>
          if recipient_user existing_instance = None \<and> kwargs_get_recipient_user kw \<noteq> None
          then
            let updated = existing_instance\<lparr>recipient_user := kwargs_get_recipient_user kw\<rparr>
            in (Inr updated,
                s\<lparr>badgeinstances := save_existing updated (badgeinstances s),
                  trace := trace s @ [SaveBadgeInstance updated None]\<rparr>)
          else (Inr existing_instance, s)
      | Inl e \<Rightarrow>
          if e \<noteq> DoesNotExist then (Inl e, s)
          else BadgeInstance_create ev abi kw s)"

section \<open>Properties used to state the claims\<close>

text \<open>
  The invariant of the data model: a badge instance that refers to a badge class
  refers to the issuer of that badge class. The badge class of key \<open>b\<close> is the one
  row of the table with that key.
\<close>

definition issuer_transitive :: "store \<Rightarrow> BadgeInstance \<Rightarrow> bool" where
  "issuer_transitive s r =
     (case badgeclass r of
        None \<Rightarrow> True
      | Some b \<Rightarrow>
         (case filter (\<lambda>x. pk x = b) (badgeclasses s) of
            [bc] \<Rightarrow> issuer r = Some (bc_issuer bc)
          | _ \<Rightarrow> False))"

section \<open>Sample inputs\<close>

text \<open>A version 1 payload whose issuer's version could not be detected.\<close>

definition sample_abi :: abi where
  "sample_abi =
     \<lparr>is_valid = True,
      data = [(''uid'', JStr ''a1''),
              (''badge'', JObj [(''name'', JStr ''B''),
                                (''issuer'', JObj [(''name'', JStr ''I'')])])],
      issuer_url = Some ''http://i'',
      badge_url = Some ''http://b'',
      instance_url = ''http://a'',
      abi_recipient_id = ''r@x'',
      abi_issuer = \<lparr>version = None, version_errors = JStr ''no version''\<rparr>,
      abi_badge = \<lparr>version = Some ''1.0'', version_errors = JNull\<rparr>,
      all_errors = []\<rparr>"

definition sample_env :: env where
  "sample_env =
     \<lparr>settings = \<lparr>MEDIA_URL = ''/media/'', HTTP_ORIGIN = ''http://h''\<rparr>,
      find_recipient_user = (\<lambda>ident. Some 7),
      baked_image_from_abi = (\<lambda>a. \<lparr>name = ''baked.png''\<rparr>),
      uuid4 = ''u1'',
      storage_name = (\<lambda>n. ''uploads/'' @ n)\<rparr>"

definition no_kwargs :: kwargs where
  "no_kwargs = \<lparr>kw_recipient_user = None, kw_image = None\<rparr>"

definition empty_store :: store where
  "empty_store = \<lparr>issuers = [], badgeclasses = [], badgeinstances = [], trace = []\<rparr>"

text \<open>A stored badge instance of a legacy payload, with the url of the sample payload
  and no recipient identity yet.\<close>

definition legacy_instance :: BadgeInstance where
  "legacy_instance =
     \<lparr>pk = 1, json = [(''image'', JStr ''http://h/media/uploads/x.png'')], errors = [],
      url = ''http://a'', badgeclass = None, issuer = None, recipient_id = ''r@x'',
      recipient_user = None, image = \<lparr>name = ''uploads/x.png''\<rparr>\<rparr>"

definition legacy_store :: store where
  "legacy_store =
     \<lparr>issuers = [], badgeclasses = [], badgeinstances = [legacy_instance], trace = []\<rparr>"

section \<open>Dictionaries, keys and lookups\<close>

lemma map_of_setitem: "map_of (setitem d k v) k = Some v"
  by (induction d k v rule: setitem.induct) auto

lemma getitem_setitem: "getitem (setitem d k v) k = Inr v"
  by (simp add: getitem_def map_of_setitem)

lemma setitem_setitem: "setitem (setitem d k a) k b = setitem d k b"
  by (induction d k a rule: setitem.induct) auto

lemma startswith_iff: "startswith s p \<longleftrightarrow> (\<exists>rest. s = p @ rest)"
  unfolding startswith_def by (metis append_eq_conv_conj)

lemma pk_less_next_pk: "r \<in> set tbl \<Longrightarrow> pk r < next_pk tbl"
  unfolding next_pk_def by (induction tbl) auto

lemma next_pk_not_in: "next_pk tbl \<notin> pk ` set tbl"
  using pk_less_next_pk by fastforce

lemma objects_get_found:
  "objects_get tbl u = Inr r \<Longrightarrow> filter (\<lambda>x. url x = u) tbl = [r]"
  unfolding objects_get_def by (auto split: list.splits)

lemma objects_get_member:
  assumes "objects_get tbl u = Inr r"
  shows "r \<in> set tbl \<and> url r = u"
proof -
  have "r \<in> set (filter (\<lambda>x. url x = u) tbl)"
    using objects_get_found [OF assms] by simp
  then show ?thesis by simp
qed

lemma objects_get_absent:
  "objects_get tbl u = Inl DoesNotExist \<Longrightarrow> filter (\<lambda>x. url x = u) tbl = []"
  unfolding objects_get_def by (auto split: list.splits)

lemma objects_get_after_insert:
  assumes "objects_get tbl u = Inl DoesNotExist" and "url r = u"
  shows "objects_get (tbl @ [r]) u = Inr r"
  using objects_get_absent [OF assms(1)] assms(2) by (simp add: objects_get_def)

lemma objects_get_errors:
  "objects_get tbl u = Inl e \<Longrightarrow> e = DoesNotExist \<or> e = MultipleObjectsReturned"
  unfolding objects_get_def by (auto split: list.splits)

section \<open>What each entry point does to the store\<close>

text \<open>
  A call of the issuer entry point either leaves the store as it is (an exception, None,
  or the row the lookup found) or appends one new row and its save; likewise for badge
  classes, whose creation runs the issuer entry point first.
\<close>

lemma Issuer_cases:
  assumes "Issuer_from_analyzed_instance abi kw s = (res, s')"
  shows "(s' = s \<and> (\<forall>r. res = Inr (Some r) \<longrightarrow> (\<exists>u. issuer_url abi = Some u \<and> objects_get (issuers s) u = Inr r)))
       \<or> (\<exists>r u. res = Inr (Some r) \<and> is_valid abi \<and> issuer_url abi = Some u
              \<and> objects_get (issuers s) u = Inl DoesNotExist
              \<and> pk r = next_pk (issuers s) \<and> url r = u
              \<and> errors r = (if version (abi_issuer abi) = None
                      then [(''error.version_detection'',
                             ''Could not determine Open Badges version of Issuer'',
                             version_errors (abi_issuer abi))]
                      else [])
              \<and> map_of (json r) ''@context'' = Some (JStr context_uri)
              \<and> s' = s\<lparr>issuers := issuers s @ [r], trace := trace s @ [SaveIssuer r]\<rparr>)"
  using assms unfolding Issuer_from_analyzed_instance_def
  by (auto simp: Let_def map_of_setitem split: if_splits option.splits sum.splits)


lemma Issuer_frame:
  assumes "Issuer_from_analyzed_instance abi kw s = (res, s')"
  shows "badgeclasses s' = badgeclasses s \<and> badgeinstances s' = badgeinstances s
       \<and> (\<exists>tr. trace s' = trace s @ tr \<and> (\<forall>e\<in>set tr. \<not> is_instance_save e \<and> \<not> is_lookup e))"
  using Issuer_cases [OF assms] by auto

lemma Issuer_failure:
  assumes "Issuer_from_analyzed_instance abi kw s = (res, s')" and "\<forall>r. res \<noteq> Inr (Some r)"
  shows "s' = s"
  using Issuer_cases [OF assms(1)] assms(2) by auto

lemma BadgeClass_cases:
  assumes "BadgeClass_from_analyzed_instance abi kw s = (res, s')"
  shows "(s' = s \<and> (\<forall>r. res = Inr (Some r) \<longrightarrow> (\<exists>u. badge_url abi = Some u \<and> objects_get (badgeclasses s) u = Inr r)))
       \<or> (\<exists>r u iss s1. res = Inr (Some r) \<and> is_valid abi \<and> badge_url abi = Some u
              \<and> objects_get (badgeclasses s) u = Inl DoesNotExist
              \<and> Issuer_from_analyzed_instance abi kw s = (Inr (Some iss), s1)
              \<and> pk r = next_pk (badgeclasses s) \<and> url r = u \<and> bc_issuer r = pk iss
              \<and> errors r = (if version (abi_badge abi) = None
                      then [(''error.version_detection'',
                             ''Could not determine Open Badges version of BadgeClass'',
                             version_errors (abi_badge abi))]
                      else [])
              \<and> map_of (json r) ''@context'' = Some (JStr context_uri)
              \<and> s' = s1\<lparr>badgeclasses := badgeclasses s @ [r], trace := trace s1 @ [SaveBadgeClass r]\<rparr>)"
proof (cases "Issuer_from_analyzed_instance abi kw s")
  case (Pair ri si)
  have fr: "badgeclasses si = badgeclasses s"
    using Issuer_frame [OF Pair] by simp
  have fail: "(\<forall>r. ri \<noteq> Inr (Some r)) \<Longrightarrow> si = s"
    using Issuer_failure [OF Pair] by simp
  show ?thesis
    using assms Pair fr fail unfolding BadgeClass_from_analyzed_instance_def
    by (auto simp: Let_def map_of_setitem split: if_splits option.splits sum.splits)
qed


lemma BadgeClass_frame:
  assumes "BadgeClass_from_analyzed_instance abi kw s = (res, s')"
  shows "badgeinstances s' = badgeinstances s
       \<and> (\<exists>tr. trace s' = trace s @ tr \<and> (\<forall>e\<in>set tr. \<not> is_instance_save e \<and> \<not> is_lookup e))"
proof -
  from BadgeClass_cases [OF assms] show ?thesis
  proof (elim disjE exE conjE)
    assume "s' = s"
    then show ?thesis by simp
  next
    fix r u iss s1
    assume i: "Issuer_from_analyzed_instance abi kw s = (Inr (Some iss), s1)"
      and s': "s' = s1\<lparr>badgeclasses := badgeclasses s @ [r], trace := trace s1 @ [SaveBadgeClass r]\<rparr>"
    from Issuer_frame [OF i] obtain tr where
      "badgeinstances s1 = badgeinstances s" "trace s1 = trace s @ tr"
      "\<forall>e\<in>set tr. \<not> is_instance_save e \<and> \<not> is_lookup e"
      by blast
    then have "badgeinstances s' = badgeinstances s"
      and "trace s' = trace s @ (tr @ [SaveBadgeClass r])"
      and "\<forall>e\<in>set (tr @ [SaveBadgeClass r]). \<not> is_instance_save e \<and> \<not> is_lookup e"
      using s' by auto
    then show ?thesis by blast
  qed
qed

lemma BadgeClass_result_stored:
  assumes "BadgeClass_from_analyzed_instance abi kw s = (Inr (Some bc), s')"
  shows "bc \<in> set (badgeclasses s')"
  using BadgeClass_cases [OF assms] objects_get_member [of "badgeclasses s" _ bc] by auto

text \<open>
  The creation of a badge instance: the second save touches the appended row only, since
  its key is fresh.
\<close>

lemma save_json_appended:
  assumes "pk obj = next_pk tbl" and "pk obj' = pk obj"
  shows "save_json obj' (tbl @ [obj]) = tbl @ [obj\<lparr>json := json obj'\<rparr>]"
proof -
  have "\<forall>r\<in>set tbl. pk r \<noteq> pk obj'"
    using assms pk_less_next_pk [of _ tbl] by fastforce
  then have "map (\<lambda>r. if pk r = pk obj' then r\<lparr>json := json obj'\<rparr> else r) tbl = tbl"
    by (simp add: map_idI)
  then show ?thesis
    using assms by (simp add: save_json_def)
qed


lemma create_success:
  assumes "BadgeInstance_create ev abi kw s = (Inr r, s')"
  shows "\<exists>bc s1 first.
      BadgeClass_from_analyzed_instance abi kw
        (s\<lparr>trace := trace s @ [FindRecipientUser (abi_recipient_id abi)]\<rparr>) = (Inr bc, s1)
    \<and> pk first = next_pk (badgeinstances s) \<and> url first = []
    \<and> badgeclass first = map_option pk bc \<and> issuer first = map_option bc_issuer bc
    \<and> recipient_user first = (case kw_recipient_user kw of
                                   None \<Rightarrow> find_recipient_user ev (abi_recipient_id abi)
                                 | Some v \<Rightarrow> v)
    \<and> r = (if map_of (json first) ''image'' = Some (JStr (image_url (settings ev) first))
           then first
           else first\<lparr>json := setitem (json first) ''image'' (JStr (image_url (settings ev) first))\<rparr>)
    \<and> issuers s' = issuers s1 \<and> badgeclasses s' = badgeclasses s1
    \<and> badgeinstances s' = badgeinstances s @ [r]
    \<and> trace s' = trace s1 @ (case kw_image kw of None \<Rightarrow> [BakedImageFromAbi] | Some i \<Rightarrow> [])
         @ SaveBadgeInstance first None
         # (if map_of (json first) ''image'' = Some (JStr (image_url (settings ev) first))
            then [] else [SaveBadgeInstance r (Some [''json''])])"
proof -
  let ?s0 = "s\<lparr>trace := trace s @ [FindRecipientUser (abi_recipient_id abi)]\<rparr>"
  obtain rb s1 where bcall: "BadgeClass_from_analyzed_instance abi kw ?s0 = (rb, s1)"
    by (cases "BadgeClass_from_analyzed_instance abi kw ?s0")
  have fr: "badgeinstances s1 = badgeinstances s"
    using BadgeClass_frame [OF bcall] by simp
  from assms bcall obtain bc where rb: "rb = Inr bc"
    unfolding BadgeInstance_create_def by (cases rb) (auto simp: Let_def)
  let ?name0 = "''earned_badge_'' @ uuid4 ev @
       splitext_ext (name (case kw_image kw of Some i \<Rightarrow> i | None \<Rightarrow> baked_image_from_abi ev abi))"
  let ?url0 = "if startswith (MEDIA_URL (settings ev)) ''http''
       then MEDIA_URL (settings ev) @ ?name0
       else HTTP_ORIGIN (settings ev) @ MEDIA_URL (settings ev) @ ?name0"
  let ?first = "\<lparr>pk = next_pk (badgeinstances s),
       json = setitem (data abi) ''image'' (JStr ?url0),
       errors = all_errors abi, url = [],
       badgeclass = map_option pk bc, issuer = map_option bc_issuer bc,
       recipient_id = abi_recipient_id abi,
       recipient_user = (case kw_recipient_user kw of
                           None \<Rightarrow> find_recipient_user ev (abi_recipient_id abi)
                         | Some v \<Rightarrow> v),
       image = \<lparr>name = storage_name ev ?name0\<rparr>\<rparr>"
  show ?thesis
    apply (rule exI [of _ bc], rule exI [of _ s1], rule exI [of _ ?first])
    using assms bcall rb fr
    unfolding BadgeInstance_create_def
    by (cases bc; cases "kw_image kw")
       (auto simp: Let_def getitem_setitem map_of_setitem image_url_def getitem_def
                   save_json_appended
             split: if_splits)
qed

lemma create_failure:
  assumes "BadgeInstance_create ev abi kw s = (Inl e, s')"
  shows "badgeinstances s' = badgeinstances s"
proof -
  let ?s0 = "s\<lparr>trace := trace s @ [FindRecipientUser (abi_recipient_id abi)]\<rparr>"
  obtain rb s1 where bcall: "BadgeClass_from_analyzed_instance abi kw ?s0 = (rb, s1)"
    by (cases "BadgeClass_from_analyzed_instance abi kw ?s0")
  have fr: "badgeinstances s1 = badgeinstances s"
    using BadgeClass_frame [OF bcall] by simp
  show ?thesis
    using assms bcall fr unfolding BadgeInstance_create_def
    by (cases rb; cases "kw_image kw")
       (auto simp: Let_def getitem_setitem split: if_splits option.splits)
qed

text \<open>The equations that evaluate the entry points on the sample inputs.\<close>

lemmas eval_defs =
  Issuer_from_analyzed_instance_def BadgeClass_from_analyzed_instance_def
  BadgeInstance_from_analyzed_instance_def BadgeInstance_create_def
  objects_get_def next_pk_def py_get_def py_copy_def dict_get_def getitem_def
  save_existing_def save_json_def image_url_def startswith_def splitext_ext_def
  kwargs_get_recipient_user_def context_uri_def
  sample_abi_def sample_env_def no_kwargs_def empty_store_def legacy_instance_def
  legacy_store_def Let_def

section \<open>Keys and the issuer invariant\<close>

lemma filter_pk_distinct:
  "distinct (map pk tbl) \<Longrightarrow> x \<in> set tbl \<Longrightarrow> filter (\<lambda>y. pk y = pk x) tbl = [x]"
proof (induction tbl)
  case Nil
  then show ?case by simp
next
  case (Cons a tbl)
  show ?case
  proof (cases "a = x")
    case True
    have "\<forall>y\<in>set tbl. pk y \<noteq> pk x"
      using Cons.prems(1) True by (auto simp: image_iff)
    then have "filter (\<lambda>y. pk y = pk x) tbl = []"
      by (simp add: filter_empty_conv)
    then show ?thesis using True by simp
  next
    case False
    then have "x \<in> set tbl" using Cons.prems(2) by simp
    moreover have "pk a \<noteq> pk x"
      using Cons.prems(1) \<open>x \<in> set tbl\<close> by (auto simp: image_iff)
    ultimately show ?thesis
      using Cons.IH Cons.prems(1) by simp
  qed
qed

lemma BadgeClass_table:
  assumes "BadgeClass_from_analyzed_instance abi kw s = (res, s')"
  shows "badgeclasses s' = badgeclasses s
       \<or> (\<exists>n. badgeclasses s' = badgeclasses s @ [n] \<and> pk n = next_pk (badgeclasses s))"
  using BadgeClass_cases [OF assms] by auto

lemma distinct_pk_grow:
  assumes "distinct (map pk tbl)"
    and "tbl' = tbl \<or> (\<exists>n. tbl' = tbl @ [n] \<and> pk n = next_pk tbl)"
  shows "distinct (map pk tbl')"
  using assms next_pk_not_in [of tbl] by auto

lemma issuer_transitive_grow:
  assumes "issuer_transitive s x"
    and "badgeclasses s' = badgeclasses s
       \<or> (\<exists>n. badgeclasses s' = badgeclasses s @ [n] \<and> pk n = next_pk (badgeclasses s))"
  shows "issuer_transitive s' x"
proof (cases "badgeclass x")
  case None
  then show ?thesis by (simp add: issuer_transitive_def)
next
  case (Some b)
  with assms(1) obtain bc where bc: "filter (\<lambda>y. pk y = b) (badgeclasses s) = [bc]"
    and iss: "issuer x = Some (bc_issuer bc)"
    by (auto simp: issuer_transitive_def split: list.splits)
  have "bc \<in> set (filter (\<lambda>y. pk y = b) (badgeclasses s))"
    using bc by simp
  then have "bc \<in> set (badgeclasses s)" and "pk bc = b" by simp_all
  then have "b \<noteq> next_pk (badgeclasses s)"
    using pk_less_next_pk [of bc "badgeclasses s"] by auto
  then have "filter (\<lambda>y. pk y = b) (badgeclasses s') = [bc]"
    using assms(2) bc by auto
  then show ?thesis
    using Some iss by (simp add: issuer_transitive_def)
qed

lemma created_issuer_transitive:
  assumes "distinct (map pk (badgeclasses s))"
    and "BadgeInstance_create ev abi kw s = (Inr r, s')"
  shows "issuer_transitive s' r"
proof -
  let ?s0 = "s\<lparr>trace := trace s @ [FindRecipientUser (abi_recipient_id abi)]\<rparr>"
  from create_success [OF assms(2)] obtain bc s1 first where
    call: "BadgeClass_from_analyzed_instance abi kw ?s0 = (Inr bc, s1)"
    and f: "badgeclass first = map_option pk bc" "issuer first = map_option bc_issuer bc"
    and r: "r = (if map_of (json first) ''image'' = Some (JStr (image_url (settings ev) first))
           then first
           else first\<lparr>json := setitem (json first) ''image'' (JStr (image_url (settings ev) first))\<rparr>)"
    and t: "badgeclasses s' = badgeclasses s1"
    by blast
  have rf: "badgeclass r = map_option pk bc" "issuer r = map_option bc_issuer bc"
    using r f by (simp_all split: if_splits)
  show ?thesis
  proof (cases bc)
    case None
    then show ?thesis using rf by (simp add: issuer_transitive_def)
  next
    case (Some b)
    have "b \<in> set (badgeclasses s1)"
      using BadgeClass_result_stored call Some by blast
    moreover have "distinct (map pk (badgeclasses s1))"
      using distinct_pk_grow [OF _ BadgeClass_table [OF call]] assms(1) by simp
    ultimately have "filter (\<lambda>y. pk y = pk b) (badgeclasses s') = [b]"
      using filter_pk_distinct t by metis
    then show ?thesis
      using rf Some by (simp add: issuer_transitive_def)
  qed
qed

lemma issuer_transitive_recipient:
  "issuer_transitive s (x\<lparr>recipient_user := u\<rparr>) = issuer_transitive s x"
  by (simp add: issuer_transitive_def split: option.splits list.splits)

lemma issuer_transitive_frame:
  "badgeclasses s' = badgeclasses s \<Longrightarrow> issuer_transitive s' x = issuer_transitive s x"
  by (simp add: issuer_transitive_def split: option.splits)

lemma create_from_entry:
  assumes "BadgeInstance_from_analyzed_instance ev abi kw s = (res, s')"
    and "objects_get (badgeinstances s) (instance_url abi) = Inl DoesNotExist"
    and "is_valid abi"
  shows "BadgeInstance_create ev abi kw s = (res, s')"
  using assms by (simp add: BadgeInstance_from_analyzed_instance_def)

section \<open>Repeated calls\<close>

text \<open>
  Saving an existing row again changes no url, and the issuer and badge class entry
  points return on a second call, for any valid payload with the same url, the row that
  the first call returned.
\<close>

lemma save_existing_urls:
  assumes "distinct (map pk tbl)" and "row \<in> set tbl"
    and "pk obj = pk row" and "url obj = url row"
  shows "map url (save_existing obj tbl) = map url tbl"
proof -
  have "inj_on pk (set tbl)"
    using assms(1) by (simp add: distinct_map)
  then have "\<forall>x\<in>set tbl. pk x = pk row \<longrightarrow> x = row"
    using assms(2) by (auto dest: inj_onD)
  then have "\<forall>x\<in>set tbl. url (if pk x = pk obj then obj else x) = url x"
    using assms(3,4) by auto
  then show ?thesis
    by (simp add: save_existing_def)
qed

lemma Issuer_idempotent:
  assumes "Issuer_from_analyzed_instance abi kw s = (Inr (Some r), s')"
    and "is_valid abi2" and "issuer_url abi2 = issuer_url abi"
  shows "Issuer_from_analyzed_instance abi2 kw2 s' = (Inr (Some r), s')"
proof -
  from Issuer_cases [OF assms(1)] obtain u where
    "issuer_url abi = Some u" and "objects_get (issuers s') u = Inr r"
    by (auto simp: objects_get_after_insert)
  then show ?thesis
    using assms(2,3) by (simp add: Issuer_from_analyzed_instance_def)
qed

lemma BadgeClass_idempotent:
  assumes "BadgeClass_from_analyzed_instance abi kw s = (Inr (Some r), s')"
    and "is_valid abi2" and "badge_url abi2 = badge_url abi"
  shows "BadgeClass_from_analyzed_instance abi2 kw2 s' = (Inr (Some r), s')"
proof -
  from BadgeClass_cases [OF assms(1)] obtain u where
    "badge_url abi = Some u" and "objects_get (badgeclasses s') u = Inr r"
    by (auto simp: objects_get_after_insert)
  then show ?thesis
    using assms(2,3) by (simp add: BadgeClass_from_analyzed_instance_def)
qed

section \<open>The recipient of a created badge instance\<close>

text \<open>
  What line 141 to 143 of the source do on the creation path: the row gets the value
  that \<^verbatim>\<open>kwargs.get\<close> returns, and the default argument of \<^verbatim>\<open>kwargs.get\<close> has been
  evaluated before, so the external lookup is the first effect of every creation.
\<close>

lemma created_recipient_user:
  assumes "is_valid abi"
    and "objects_get (badgeinstances s) (instance_url abi) = Inl DoesNotExist"
    and "BadgeInstance_from_analyzed_instance ev abi kw s = (Inr r, s')"
  shows "recipient_user r = (case kw_recipient_user kw of
                               Some v \<Rightarrow> v
                             | None \<Rightarrow> find_recipient_user ev (abi_recipient_id abi))
       \<and> (\<exists>tr. trace s' = trace s @ FindRecipientUser (abi_recipient_id abi) # tr
              \<and> filter is_lookup tr = [])"
proof -
  let ?s0 = "s\<lparr>trace := trace s @ [FindRecipientUser (abi_recipient_id abi)]\<rparr>"
  have cr: "BadgeInstance_create ev abi kw s = (Inr r, s')"
    using create_from_entry [OF assms(3) assms(2) assms(1)] .
  from create_success [OF cr] obtain bc s1 first where
    call: "BadgeClass_from_analyzed_instance abi kw ?s0 = (Inr bc, s1)"
    and ru: "recipient_user first = (case kw_recipient_user kw of
                                   None \<Rightarrow> find_recipient_user ev (abi_recipient_id abi)
                                 | Some v \<Rightarrow> v)"
    and r: "r = (if map_of (json first) ''image'' = Some (JStr (image_url (settings ev) first))
           then first
           else first\<lparr>json := setitem (json first) ''image'' (JStr (image_url (settings ev) first))\<rparr>)"
    and t: "trace s' = trace s1 @ (case kw_image kw of None \<Rightarrow> [BakedImageFromAbi] | Some i \<Rightarrow> [])
         @ SaveBadgeInstance first None
         # (if map_of (json first) ''image'' = Some (JStr (image_url (settings ev) first))
            then [] else [SaveBadgeInstance r (Some [''json''])])"
    by blast
  from BadgeClass_frame [OF call] obtain tr where
    tr: "trace s1 = trace ?s0 @ tr" "\<forall>e\<in>set tr. \<not> is_instance_save e \<and> \<not> is_lookup e"
    by blast
  let ?rest = "tr @ (case kw_image kw of None \<Rightarrow> [BakedImageFromAbi] | Some i \<Rightarrow> [])
         @ SaveBadgeInstance first None
         # (if map_of (json first) ''image'' = Some (JStr (image_url (settings ev) first))
            then [] else [SaveBadgeInstance r (Some [''json''])])"
  have "filter is_lookup tr = []"
    using tr(2) by (simp add: filter_empty_conv)
  then have "filter is_lookup ?rest = []"
    by (simp split: option.splits)
  moreover have "trace s' = trace s @ FindRecipientUser (abi_recipient_id abi) # ?rest"
    using t tr(1) by simp
  moreover have "recipient_user r = (case kw_recipient_user kw of
                               Some v \<Rightarrow> v
                             | None \<Rightarrow> find_recipient_user ev (abi_recipient_id abi))"
    using r ru by (simp split: if_splits option.splits)
  ultimately show ?thesis by blast
qed

section \<open>Checked properties of the specification\<close>

text \<open>
  C3. On a payload whose \<^verbatim>\<open>is_valid()\<close> is false, each of the three entry points
  raises the validation error, and the store (rows and effects) is the one it was
  called with.
\<close>

theorem invalid_payload_raises:
  assumes "\<not> is_valid abi"
  shows "Issuer_from_analyzed_instance abi kw s = (Inl ValidationError, s)
       \<and> BadgeClass_from_analyzed_instance abi kw s = (Inl ValidationError, s)
       \<and> BadgeInstance_from_analyzed_instance ev abi kw s = (Inl ValidationError, s)"
  using assms
  by (simp add: Issuer_from_analyzed_instance_def BadgeClass_from_analyzed_instance_def
        BadgeInstance_from_analyzed_instance_def)

theorem invalid_payload_raises_witness:
  "\<not> is_valid (sample_abi\<lparr>is_valid := False\<rparr>)
   \<and> Issuer_from_analyzed_instance (sample_abi\<lparr>is_valid := False\<rparr>) no_kwargs legacy_store
       = (Inl ValidationError, legacy_store)
   \<and> BadgeClass_from_analyzed_instance (sample_abi\<lparr>is_valid := False\<rparr>) no_kwargs legacy_store
       = (Inl ValidationError, legacy_store)
   \<and> BadgeInstance_from_analyzed_instance sample_env (sample_abi\<lparr>is_valid := False\<rparr>)
         no_kwargs legacy_store
       = (Inl ValidationError, legacy_store)"
proof -
  have h: "\<not> is_valid (sample_abi\<lparr>is_valid := False\<rparr>)" by simp
  show ?thesis
    using h invalid_payload_raises [OF h, of no_kwargs legacy_store sample_env] by simp
qed

text \<open>
  C5. \<^verbatim>\<open>image_url()\<close> is MEDIA_URL followed by the name of the stored image when
  MEDIA_URL starts with "http", and HTTP_ORIGIN, MEDIA_URL and the name otherwise.
\<close>

theorem image_url_by_media_url:
  "((\<exists>rest. MEDIA_URL cfg = ''http'' @ rest) \<longrightarrow>
      image_url cfg self = MEDIA_URL cfg @ name (image self))
   \<and> (\<not> (\<exists>rest. MEDIA_URL cfg = ''http'' @ rest) \<longrightarrow>
      image_url cfg self = HTTP_ORIGIN cfg @ MEDIA_URL cfg @ name (image self))"
  by (simp add: image_url_def startswith_iff)

theorem image_url_by_media_url_witness:
  "(\<exists>rest. MEDIA_URL \<lparr>MEDIA_URL = ''https://cdn/'', HTTP_ORIGIN = ''http://h''\<rparr> = ''http'' @ rest)
   \<and> image_url \<lparr>MEDIA_URL = ''https://cdn/'', HTTP_ORIGIN = ''http://h''\<rparr> legacy_instance
       = ''https://cdn/uploads/x.png''
   \<and> \<not> (\<exists>rest. MEDIA_URL (settings sample_env) = ''http'' @ rest)
   \<and> image_url (settings sample_env) legacy_instance = ''http://h/media/uploads/x.png''"
proof -
  let ?cdn = "\<lparr>MEDIA_URL = ''https://cdn/'', HTTP_ORIGIN = ''http://h''\<rparr>"
  have a: "\<exists>rest. MEDIA_URL ?cdn = ''http'' @ rest" by simp
  have b: "\<not> (\<exists>rest. MEDIA_URL (settings sample_env) = ''http'' @ rest)"
    by (simp add: sample_env_def)
  show ?thesis
    using a b image_url_by_media_url [of ?cdn legacy_instance]
      image_url_by_media_url [of "settings sample_env" legacy_instance]
    by (simp add: sample_env_def legacy_instance_def)
qed

text \<open>
  C6. On a valid payload whose \<^verbatim>\<open>issuer_url\<close> (for the issuer) or \<^verbatim>\<open>badge_url\<close> (for the
  badge class) cannot be read, the access raising AttributeError as for a version 0.5
  badge, the entry point returns None without raising, and the store is the one it was
  called with: no row is created.
\<close>

theorem legacy_payload_returns_None:
  assumes "is_valid abi"
  shows "(issuer_url abi = None \<longrightarrow> Issuer_from_analyzed_instance abi kw s = (Inr None, s))
       \<and> (badge_url abi = None \<longrightarrow> BadgeClass_from_analyzed_instance abi kw s = (Inr None, s))"
  using assms
  by (simp add: Issuer_from_analyzed_instance_def BadgeClass_from_analyzed_instance_def)

theorem legacy_payload_returns_None_witness:
  "is_valid (sample_abi\<lparr>issuer_url := None, badge_url := None\<rparr>)
   \<and> issuer_url (sample_abi\<lparr>issuer_url := None, badge_url := None\<rparr>) = None
   \<and> badge_url (sample_abi\<lparr>issuer_url := None, badge_url := None\<rparr>) = None
   \<and> Issuer_from_analyzed_instance (sample_abi\<lparr>issuer_url := None, badge_url := None\<rparr>)
         no_kwargs empty_store = (Inr None, empty_store)
   \<and> BadgeClass_from_analyzed_instance (sample_abi\<lparr>issuer_url := None, badge_url := None\<rparr>)
         no_kwargs empty_store = (Inr None, empty_store)"
proof -
  let ?abi = "sample_abi\<lparr>issuer_url := None, badge_url := None\<rparr>"
  have h: "is_valid ?abi" by (simp add: sample_abi_def)
  show ?thesis
    using h legacy_payload_returns_None [OF h, of no_kwargs empty_store] by simp
qed

text \<open>
  C7. Whenever the issuer entry point (or the badge class entry point) adds a row to
  its table, it returns that row and raises nothing; the row's error list is the single
  entry (code, message, detail) of the version detection failure when the version of the
  payload's issuer (badge) is None, and empty when a version was detected; and its JSON
  document carries the context URI https://w3id.org/openbadges/v1.
\<close>

theorem version_detection_recorded:
  "(Issuer_from_analyzed_instance abi kw s = (res, s') \<and> issuers s' \<noteq> issuers s \<longrightarrow>
      (\<exists>r. res = Inr (Some r) \<and> issuers s' = issuers s @ [r]
         \<and> errors r = (case version (abi_issuer abi) of
                          None \<Rightarrow> [(''error.version_detection'',
                                    ''Could not determine Open Badges version of Issuer'',
                                    version_errors (abi_issuer abi))]
                        | Some v \<Rightarrow> [])
         \<and> map_of (json r) ''@context'' = Some (JStr ''https://w3id.org/openbadges/v1'')))
   \<and> (BadgeClass_from_analyzed_instance abi kw s = (res2, s2) \<and> badgeclasses s2 \<noteq> badgeclasses s \<longrightarrow>
      (\<exists>r. res2 = Inr (Some r) \<and> badgeclasses s2 = badgeclasses s @ [r]
         \<and> errors r = (case version (abi_badge abi) of
                          None \<Rightarrow> [(''error.version_detection'',
                                    ''Could not determine Open Badges version of BadgeClass'',
                                    version_errors (abi_badge abi))]
                        | Some v \<Rightarrow> [])
         \<and> map_of (json r) ''@context'' = Some (JStr ''https://w3id.org/openbadges/v1'')))"
proof (intro conjI impI)
  assume a: "Issuer_from_analyzed_instance abi kw s = (res, s') \<and> issuers s' \<noteq> issuers s"
  then show "\<exists>r. res = Inr (Some r) \<and> issuers s' = issuers s @ [r]
         \<and> errors r = (case version (abi_issuer abi) of
                          None \<Rightarrow> [(''error.version_detection'',
                                    ''Could not determine Open Badges version of Issuer'',
                                    version_errors (abi_issuer abi))]
                        | Some v \<Rightarrow> [])
         \<and> map_of (json r) ''@context'' = Some (JStr ''https://w3id.org/openbadges/v1'')"
    using Issuer_cases [of abi kw s res s']
    by (auto simp: context_uri_def split: option.splits)
next
  assume a: "BadgeClass_from_analyzed_instance abi kw s = (res2, s2) \<and> badgeclasses s2 \<noteq> badgeclasses s"
  then show "\<exists>r. res2 = Inr (Some r) \<and> badgeclasses s2 = badgeclasses s @ [r]
         \<and> errors r = (case version (abi_badge abi) of
                          None \<Rightarrow> [(''error.version_detection'',
                                    ''Could not determine Open Badges version of BadgeClass'',
                                    version_errors (abi_badge abi))]
                        | Some v \<Rightarrow> [])
         \<and> map_of (json r) ''@context'' = Some (JStr ''https://w3id.org/openbadges/v1'')"
    using BadgeClass_cases [of abi kw s res2 s2]
    by (auto simp: context_uri_def split: option.splits)
qed

theorem version_detection_recorded_witness:
  "issuers (snd (Issuer_from_analyzed_instance sample_abi no_kwargs empty_store))
     \<noteq> issuers empty_store
   \<and> version (abi_issuer sample_abi) = None
   \<and> (\<exists>r. fst (Issuer_from_analyzed_instance sample_abi no_kwargs empty_store) = Inr (Some r)
        \<and> errors r = [(''error.version_detection'',
                        ''Could not determine Open Badges version of Issuer'',
                        JStr ''no version'')]
        \<and> map_of (json r) ''@context'' = Some (JStr ''https://w3id.org/openbadges/v1''))
   \<and> badgeclasses (snd (BadgeClass_from_analyzed_instance sample_abi no_kwargs empty_store))
     \<noteq> badgeclasses empty_store
   \<and> version (abi_badge sample_abi) = Some ''1.0''
   \<and> (\<exists>r. fst (BadgeClass_from_analyzed_instance sample_abi no_kwargs empty_store) = Inr (Some r)
        \<and> errors r = []
        \<and> map_of (json r) ''@context'' = Some (JStr ''https://w3id.org/openbadges/v1''))"
proof -
  let ?i = "Issuer_from_analyzed_instance sample_abi no_kwargs empty_store"
  let ?b = "BadgeClass_from_analyzed_instance sample_abi no_kwargs empty_store"
  have hi: "?i = (fst ?i, snd ?i) \<and> issuers (snd ?i) \<noteq> issuers empty_store"
    by (simp add: eval_defs)
  have hb: "?b = (fst ?b, snd ?b) \<and> badgeclasses (snd ?b) \<noteq> badgeclasses empty_store"
    by (simp add: eval_defs)
  have vi: "version (abi_issuer sample_abi) = None"
    and vb: "version (abi_badge sample_abi) = Some ''1.0''"
    and ve: "version_errors (abi_issuer sample_abi) = JStr ''no version''"
    by (simp_all add: sample_abi_def)
  from version_detection_recorded
    [of sample_abi no_kwargs empty_store "fst ?i" "snd ?i" "fst ?b" "snd ?b"] hi hb
  show ?thesis
    unfolding vi vb ve by auto
qed

text \<open>
  C4. The payload is valid and the lookup by \<^verbatim>\<open>instance_url\<close> finds a badge instance. If
  its \<^verbatim>\<open>recipient_user\<close> is None and the options give a recipient user U other than None,
  the call saves the row with \<^verbatim>\<open>recipient_user\<close> U (the row of that key in the table is
  now the updated one) and returns it. If the row has a recipient user already, or the
  options give none, the row is returned as it is and the store is unchanged.
\<close>

theorem existing_instance_recipient:
  assumes "is_valid abi"
    and "objects_get (badgeinstances s) (instance_url abi) = Inr row"
  shows "(recipient_user row = None \<and> kwargs_get_recipient_user kw = Some U \<longrightarrow>
            BadgeInstance_from_analyzed_instance ev abi kw s =
              (Inr (row\<lparr>recipient_user := Some U\<rparr>),
               s\<lparr>badgeinstances :=
                    map (\<lambda>x. if pk x = pk row then row\<lparr>recipient_user := Some U\<rparr> else x)
                      (badgeinstances s),
                  trace := trace s @ [SaveBadgeInstance (row\<lparr>recipient_user := Some U\<rparr>) None]\<rparr>)
            \<and> row\<lparr>recipient_user := Some U\<rparr>
                 \<in> set (badgeinstances (snd (BadgeInstance_from_analyzed_instance ev abi kw s))))
       \<and> (recipient_user row \<noteq> None \<or> kwargs_get_recipient_user kw = None \<longrightarrow>
            BadgeInstance_from_analyzed_instance ev abi kw s = (Inr row, s))"
proof -
  have "row \<in> set (badgeinstances s)"
    using objects_get_member [OF assms(2)] by simp
  then have "row\<lparr>recipient_user := Some U\<rparr>
      \<in> set (map (\<lambda>x. if pk x = pk row then row\<lparr>recipient_user := Some U\<rparr> else x)
                (badgeinstances s))"
    by (auto simp: image_iff intro!: bexI [of _ row])
  then show ?thesis
    using assms
    by (auto simp: BadgeInstance_from_analyzed_instance_def save_existing_def Let_def)
qed

theorem existing_instance_recipient_witness:
  "is_valid sample_abi
   \<and> objects_get (badgeinstances legacy_store) (instance_url sample_abi) = Inr legacy_instance
   \<and> recipient_user legacy_instance = None
   \<and> kwargs_get_recipient_user \<lparr>kw_recipient_user = Some (Some 5), kw_image = None\<rparr> = Some 5
   \<and> BadgeInstance_from_analyzed_instance sample_env sample_abi
        \<lparr>kw_recipient_user = Some (Some 5), kw_image = None\<rparr> legacy_store
      = (Inr (legacy_instance\<lparr>recipient_user := Some 5\<rparr>),
         legacy_store\<lparr>badgeinstances := [legacy_instance\<lparr>recipient_user := Some 5\<rparr>],
                      trace := [SaveBadgeInstance (legacy_instance\<lparr>recipient_user := Some 5\<rparr>) None]\<rparr>)
   \<and> kwargs_get_recipient_user no_kwargs = None
   \<and> BadgeInstance_from_analyzed_instance sample_env sample_abi no_kwargs legacy_store
      = (Inr legacy_instance, legacy_store)"
proof -
  let ?kw = "\<lparr>kw_recipient_user = Some (Some 5), kw_image = None\<rparr>"
  have v: "is_valid sample_abi" by (simp add: sample_abi_def)
  have g: "objects_get (badgeinstances legacy_store) (instance_url sample_abi) = Inr legacy_instance"
    by (simp add: objects_get_def legacy_store_def legacy_instance_def sample_abi_def)
  have n: "recipient_user legacy_instance = None" by (simp add: legacy_instance_def)
  have k: "kwargs_get_recipient_user ?kw = Some 5"
    and k0: "kwargs_get_recipient_user no_kwargs = None"
    by (simp_all add: kwargs_get_recipient_user_def no_kwargs_def)
  show ?thesis
    using v g n k k0
      existing_instance_recipient [OF v g, of ?kw 5 sample_env]
      existing_instance_recipient [OF v g, of no_kwargs 5 sample_env]
    by (simp add: legacy_store_def)
qed

text \<open>
  C2. Keys of badge classes are distinct (the primary key constraint). A badge instance
  returned by the entry point satisfies \<open>issuer_transitive\<close> in the resulting store: when
  its badge class reference is not None, its issuer reference is the issuer of that
  badge class. This holds for every row the call creates, and for a row it finds
  when the stored rows satisfied the invariant before; in that case every stored row
  satisfies it afterwards as well.
\<close>

theorem instance_issuer_from_badgeclass:
  assumes "distinct (map pk (badgeclasses s))"
    and "BadgeInstance_from_analyzed_instance ev abi kw s = (Inr r, s')"
    and "objects_get (badgeinstances s) (instance_url abi) = Inl DoesNotExist
         \<or> (\<forall>x\<in>set (badgeinstances s). issuer_transitive s x)"
  shows "issuer_transitive s' r
       \<and> ((\<forall>x\<in>set (badgeinstances s). issuer_transitive s x) \<longrightarrow>
            (\<forall>x\<in>set (badgeinstances s'). issuer_transitive s' x))"
proof (cases "objects_get (badgeinstances s) (instance_url abi)")
  case (Inl e)
  from assms(2) Inl have valid: "is_valid abi" and e: "e = DoesNotExist"
    and cr: "BadgeInstance_create ev abi kw s = (Inr r, s')"
    by (auto simp: BadgeInstance_from_analyzed_instance_def split: if_splits)
  have r: "issuer_transitive s' r"
    using created_issuer_transitive [OF assms(1) cr] .
  let ?s0 = "s\<lparr>trace := trace s @ [FindRecipientUser (abi_recipient_id abi)]\<rparr>"
  from create_success [OF cr] obtain bc s1 where
    call: "BadgeClass_from_analyzed_instance abi kw ?s0 = (Inr bc, s1)"
    and t: "badgeclasses s' = badgeclasses s1"
    and i: "badgeinstances s' = badgeinstances s @ [r]"
    by blast
  have grow: "badgeclasses s' = badgeclasses s
       \<or> (\<exists>n. badgeclasses s' = badgeclasses s @ [n] \<and> pk n = next_pk (badgeclasses s))"
    using BadgeClass_table [OF call] t by simp
  have "\<forall>x\<in>set (badgeinstances s'). issuer_transitive s' x"
    if "\<forall>x\<in>set (badgeinstances s). issuer_transitive s x"
    using that r i issuer_transitive_grow [OF _ grow] by auto
  then show ?thesis using r by blast
next
  case (Inr row)
  then have inv: "\<forall>x\<in>set (badgeinstances s). issuer_transitive s x"
    using assms(3) by simp
  have row: "issuer_transitive s row"
    using inv objects_get_member [OF Inr] by blast
  from assms(2) Inr have valid: "is_valid abi"
    by (auto simp: BadgeInstance_from_analyzed_instance_def split: if_splits)
  from assms(2) Inr valid have bc: "badgeclasses s' = badgeclasses s"
    and r: "r = row \<or> r = row\<lparr>recipient_user := kwargs_get_recipient_user kw\<rparr>"
    and tbl: "badgeinstances s' = badgeinstances s
            \<or> badgeinstances s' = save_existing r (badgeinstances s)"
    by (auto simp: BadgeInstance_from_analyzed_instance_def Let_def split: if_splits)
  have rr: "issuer_transitive s r"
    using r row issuer_transitive_recipient by auto
  have "\<forall>x\<in>set (badgeinstances s'). issuer_transitive s x"
    using tbl inv rr by (auto simp: save_existing_def)
  then show ?thesis
    using rr issuer_transitive_frame [OF bc] by simp
qed

theorem instance_issuer_from_badgeclass_witness:
  "distinct (map pk (badgeclasses empty_store))
   \<and> objects_get (badgeinstances empty_store) (instance_url sample_abi) = Inl DoesNotExist
   \<and> (\<exists>r s'. BadgeInstance_from_analyzed_instance sample_env sample_abi no_kwargs empty_store
                = (Inr r, s')
        \<and> badgeclass r = Some 1 \<and> issuer r = Some 1
        \<and> map pk (badgeclasses s') = [1] \<and> map bc_issuer (badgeclasses s') = [1]
        \<and> issuer_transitive s' r)"
proof -
  let ?c = "BadgeInstance_from_analyzed_instance sample_env sample_abi no_kwargs empty_store"
  have d: "distinct (map pk (badgeclasses empty_store))"
    by (simp add: empty_store_def)
  have g: "objects_get (badgeinstances empty_store) (instance_url sample_abi) = Inl DoesNotExist"
    by (simp add: objects_get_def empty_store_def)
  obtain r s' where c: "?c = (Inr r, s')"
    and v: "badgeclass r = Some 1" "issuer r = Some 1"
      "map pk (badgeclasses s') = [1]" "map bc_issuer (badgeclasses s') = [1]"
    by (simp add: eval_defs)
  from instance_issuer_from_badgeclass [OF d c] g have "issuer_transitive s' r"
    by simp
  with d g c v show ?thesis by auto
qed

text \<open>
  C8. The payload is valid, the lookup by \<^verbatim>\<open>instance_url\<close> finds no row, and the call
  returns a row \<open>r\<close>. Then the saves of badge instances that the call adds to the trace
  are the first save of an object \<open>first\<close>, with no \<^verbatim>\<open>update_fields\<close>, followed by a second
  save with \<^verbatim>\<open>update_fields=['json']\<close> exactly when the image URL recomputed from \<open>first\<close>
  (the object as the first save left it) differs from the value under \<^verbatim>\<open>'image'\<close> in its
  JSON document. In that case the returned and stored row is \<open>first\<close> with only its JSON
  document changed (the recomputed URL under \<^verbatim>\<open>'image'\<close>); otherwise it is \<open>first\<close> itself.
  The table is the old one with that single row appended.
\<close>

theorem second_save_only_json:
  assumes "is_valid abi"
    and "objects_get (badgeinstances s) (instance_url abi) = Inl DoesNotExist"
    and "BadgeInstance_from_analyzed_instance ev abi kw s = (Inr r, s')"
  shows "\<exists>first.
      filter is_instance_save (trace s') =
        filter is_instance_save (trace s) @
          SaveBadgeInstance first None #
          (if map_of (json first) ''image'' = Some (JStr (image_url (settings ev) first))
           then []
           else [SaveBadgeInstance r (Some [''json''])])
    \<and> r = (if map_of (json first) ''image'' = Some (JStr (image_url (settings ev) first))
           then first
           else first\<lparr>json := setitem (json first) ''image''
                                   (JStr (image_url (settings ev) first))\<rparr>)
    \<and> badgeinstances s' = badgeinstances s @ [r]"
proof -
  let ?s0 = "s\<lparr>trace := trace s @ [FindRecipientUser (abi_recipient_id abi)]\<rparr>"
  have cr: "BadgeInstance_create ev abi kw s = (Inr r, s')"
    using create_from_entry [OF assms(3) assms(2) assms(1)] .
  from create_success [OF cr] obtain bc s1 first where
    call: "BadgeClass_from_analyzed_instance abi kw ?s0 = (Inr bc, s1)"
    and r: "r = (if map_of (json first) ''image'' = Some (JStr (image_url (settings ev) first))
           then first
           else first\<lparr>json := setitem (json first) ''image'' (JStr (image_url (settings ev) first))\<rparr>)"
    and i: "badgeinstances s' = badgeinstances s @ [r]"
    and t: "trace s' = trace s1 @ (case kw_image kw of None \<Rightarrow> [BakedImageFromAbi] | Some i \<Rightarrow> [])
         @ SaveBadgeInstance first None
         # (if map_of (json first) ''image'' = Some (JStr (image_url (settings ev) first))
            then [] else [SaveBadgeInstance r (Some [''json''])])"
    by blast
  from BadgeClass_frame [OF call] obtain tr where
    tr: "trace s1 = trace ?s0 @ tr" "\<forall>e\<in>set tr. \<not> is_instance_save e \<and> \<not> is_lookup e"
    by blast
  have "filter is_instance_save tr = []"
    using tr(2) by (simp add: filter_empty_conv)
  then have "filter is_instance_save (trace s1) = filter is_instance_save (trace s)"
    using tr(1) by simp
  then have "filter is_instance_save (trace s') =
        filter is_instance_save (trace s) @
          SaveBadgeInstance first None #
          (if map_of (json first) ''image'' = Some (JStr (image_url (settings ev) first))
           then []
           else [SaveBadgeInstance r (Some [''json''])])"
    using t by (simp split: option.splits)
  with r i show ?thesis by blast
qed

theorem second_save_only_json_witness:
  "is_valid sample_abi
   \<and> objects_get (badgeinstances empty_store) (instance_url sample_abi) = Inl DoesNotExist
   \<and> (\<exists>r s' first.
        BadgeInstance_from_analyzed_instance sample_env sample_abi no_kwargs empty_store
          = (Inr r, s')
        \<and> filter is_instance_save (trace s') =
            SaveBadgeInstance first None #
            (if map_of (json first) ''image'' = Some (JStr (image_url (settings sample_env) first))
             then []
             else [SaveBadgeInstance r (Some [''json''])])
        \<and> length (filter is_instance_save (trace s')) = 2
        \<and> map_of (json r) ''image'' = Some (JStr ''http://h/media/uploads/earned_badge_u1.png'')
        \<and> badgeinstances s' = [r])"
proof -
  let ?c = "BadgeInstance_from_analyzed_instance sample_env sample_abi no_kwargs empty_store"
  have v: "is_valid sample_abi" by (simp add: sample_abi_def)
  have g: "objects_get (badgeinstances empty_store) (instance_url sample_abi) = Inl DoesNotExist"
    by (simp add: objects_get_def empty_store_def)
  obtain r s' where c: "?c = (Inr r, s')"
    and len: "length (filter is_instance_save (trace s')) = 2"
    and j: "map_of (json r) ''image'' = Some (JStr ''http://h/media/uploads/earned_badge_u1.png'')"
    by (simp add: eval_defs)
  from second_save_only_json [OF v g c] obtain first where
    "filter is_instance_save (trace s') =
        filter is_instance_save (trace empty_store) @
          SaveBadgeInstance first None #
          (if map_of (json first) ''image'' = Some (JStr (image_url (settings sample_env) first))
           then []
           else [SaveBadgeInstance r (Some [''json''])])"
    and "badgeinstances s' = badgeinstances empty_store @ [r]"
    by blast
  then have "filter is_instance_save (trace s') =
          SaveBadgeInstance first None #
          (if map_of (json first) ''image'' = Some (JStr (image_url (settings sample_env) first))
           then []
           else [SaveBadgeInstance r (Some [''json''])])"
    and "badgeinstances s' = [r]"
    by (simp_all add: empty_store_def)
  with v g c len j show ?thesis by blast
qed

text \<open>
  C9 does not hold. On the empty store, creating a badge instance from the sample
  payload with the option \<^verbatim>\<open>recipient_user\<close> = 5 gives the row the recipient user 5,
  and the external lookup \<^verbatim>\<open>find_recipient_user\<close> has been consulted all the same: the
  default argument of \<^verbatim>\<open>kwargs.get\<close> is evaluated before the call. With the option
  given as None, which the two sibling paths of the same method (the update of an
  existing row, and the image) treat as not supplied, the row gets None although the
  lookup, consulted here too, finds the user 7.
\<close>

theorem recipient_lookup_not_lazy:
  "kw_recipient_user \<lparr>kw_recipient_user = Some (Some 5), kw_image = None\<rparr> = Some (Some 5)
   \<and> map_sum id recipient_user
       (fst (BadgeInstance_from_analyzed_instance sample_env sample_abi
               \<lparr>kw_recipient_user = Some (Some 5), kw_image = None\<rparr> empty_store))
      = Inr (Some 5)
   \<and> filter is_lookup
       (trace (snd (BadgeInstance_from_analyzed_instance sample_env sample_abi
               \<lparr>kw_recipient_user = Some (Some 5), kw_image = None\<rparr> empty_store)))
      = [FindRecipientUser ''r@x'']
   \<and> find_recipient_user sample_env (abi_recipient_id sample_abi) = Some 7
   \<and> kwargs_get_recipient_user \<lparr>kw_recipient_user = Some None, kw_image = None\<rparr> = None
   \<and> map_sum id recipient_user
       (fst (BadgeInstance_from_analyzed_instance sample_env sample_abi
               \<lparr>kw_recipient_user = Some None, kw_image = None\<rparr> empty_store))
      = Inr None
   \<and> filter is_lookup
       (trace (snd (BadgeInstance_from_analyzed_instance sample_env sample_abi
               \<lparr>kw_recipient_user = Some None, kw_image = None\<rparr> empty_store)))
      = [FindRecipientUser ''r@x'']"
  by (simp add: eval_defs)

text \<open>
  C10. Keys of badge instances are distinct (the primary key constraint). The issuer and
  badge class entry points leave the table of badge instances as it is. The badge
  instance entry point either leaves the url of every stored row as it is and adds no
  row, or appends the one row it returns, whose url is the empty string: the url of the
  payload is never stored. Hence a table whose rows all have a blank url keeps that
  property under every operation of the module.
\<close>

theorem instance_url_stays_blank:
  assumes "Issuer_from_analyzed_instance abi kw s = (ri, si)"
    and "BadgeClass_from_analyzed_instance abi kw s = (rb, sb)"
    and "BadgeInstance_from_analyzed_instance ev abi kw s = (rr, sr)"
    and "distinct (map pk (badgeinstances s))"
  shows "badgeinstances si = badgeinstances s
       \<and> badgeinstances sb = badgeinstances s
       \<and> (map url (badgeinstances sr) = map url (badgeinstances s)
          \<or> (\<exists>r. rr = Inr r \<and> url r = [] \<and> badgeinstances sr = badgeinstances s @ [r]))
       \<and> ((\<forall>x\<in>set (badgeinstances s). url x = []) \<longrightarrow>
            (\<forall>x\<in>set (badgeinstances sr). url x = []))"
proof -
  have i: "badgeinstances si = badgeinstances s"
    using Issuer_frame [OF assms(1)] by simp
  have b: "badgeinstances sb = badgeinstances s"
    using BadgeClass_frame [OF assms(2)] by simp
  have c: "map url (badgeinstances sr) = map url (badgeinstances s)
          \<or> (\<exists>r. rr = Inr r \<and> url r = [] \<and> badgeinstances sr = badgeinstances s @ [r])"
  proof (cases "is_valid abi")
    case False
    then show ?thesis
      using assms(3) by (simp add: BadgeInstance_from_analyzed_instance_def)
  next
    case True
    show ?thesis
    proof (cases "objects_get (badgeinstances s) (instance_url abi)")
      case (Inr row)
      have m: "row \<in> set (badgeinstances s)"
        using objects_get_member [OF Inr] by simp
      have "map url (save_existing (row\<lparr>recipient_user := kwargs_get_recipient_user kw\<rparr>)
                       (badgeinstances s)) = map url (badgeinstances s)"
        using save_existing_urls [OF assms(4) m] by simp
      then show ?thesis
        using assms(3) True Inr
        by (auto simp: BadgeInstance_from_analyzed_instance_def Let_def split: if_splits)
    next
      case (Inl e)
      show ?thesis
      proof (cases "e = DoesNotExist")
        case False
        then show ?thesis
          using assms(3) True Inl by (simp add: BadgeInstance_from_analyzed_instance_def)
      next
        case yes: True
        then have cr: "BadgeInstance_create ev abi kw s = (rr, sr)"
          using assms(3) True Inl by (simp add: BadgeInstance_from_analyzed_instance_def)
        show ?thesis
        proof (cases rr)
          case (Inl err)
          then show ?thesis using create_failure cr by simp
        next
          case (Inr r)
          from create_success [OF cr [unfolded Inr]] obtain first where
            "url first = []"
            and "r = (if map_of (json first) ''image'' = Some (JStr (image_url (settings ev) first))
                 then first
                 else first\<lparr>json := setitem (json first) ''image''
                                        (JStr (image_url (settings ev) first))\<rparr>)"
            and "badgeinstances sr = badgeinstances s @ [r]"
            by blast
          then have "url r = []" by (simp split: if_splits)
          then show ?thesis
            using Inr \<open>badgeinstances sr = badgeinstances s @ [r]\<close> by simp
        qed
      qed
    qed
  qed
  have "\<forall>x\<in>set (badgeinstances sr). url x = []"
    if "\<forall>x\<in>set (badgeinstances s). url x = []"
  proof -
    from c show ?thesis
    proof
      assume e: "map url (badgeinstances sr) = map url (badgeinstances s)"
      have "\<forall>u\<in>set (map url (badgeinstances s)). u = []"
        using that by simp
      then have "\<forall>u\<in>set (map url (badgeinstances sr)). u = []"
        unfolding e .
      then show ?thesis by simp
    next
      assume "\<exists>r. rr = Inr r \<and> url r = [] \<and> badgeinstances sr = badgeinstances s @ [r]"
      then show ?thesis using that by auto
    qed
  qed
  with i b c show ?thesis by blast
qed

theorem instance_url_stays_blank_witness:
  "distinct (map pk (badgeinstances empty_store))
   \<and> badgeinstances (snd (Issuer_from_analyzed_instance sample_abi no_kwargs empty_store))
       = badgeinstances empty_store
   \<and> badgeinstances (snd (BadgeClass_from_analyzed_instance sample_abi no_kwargs empty_store))
       = badgeinstances empty_store
   \<and> instance_url sample_abi = ''http://a''
   \<and> map url (badgeinstances
        (snd (BadgeInstance_from_analyzed_instance sample_env sample_abi no_kwargs empty_store)))
       = [[]]"
proof -
  let ?i = "Issuer_from_analyzed_instance sample_abi no_kwargs empty_store"
  let ?b = "BadgeClass_from_analyzed_instance sample_abi no_kwargs empty_store"
  let ?c = "BadgeInstance_from_analyzed_instance sample_env sample_abi no_kwargs empty_store"
  have d: "distinct (map pk (badgeinstances empty_store))"
    by (simp add: empty_store_def)
  have n: "length (badgeinstances (snd ?c)) = 1"
    by (simp add: eval_defs)
  have u: "instance_url sample_abi = ''http://a''"
    by (simp add: sample_abi_def)
  from instance_url_stays_blank [of sample_abi no_kwargs empty_store "fst ?i" "snd ?i"
      "fst ?b" "snd ?b" sample_env "fst ?c" "snd ?c", OF _ _ _ d]
  have "badgeinstances (snd ?i) = badgeinstances empty_store"
    and "badgeinstances (snd ?b) = badgeinstances empty_store"
    and "map url (badgeinstances (snd ?c)) = map url (badgeinstances empty_store)
          \<or> (\<exists>r. fst ?c = Inr r \<and> url r = []
                \<and> badgeinstances (snd ?c) = badgeinstances empty_store @ [r])"
    by simp_all
  moreover have "map url (badgeinstances empty_store) = []"
    by (simp add: empty_store_def)
  ultimately show ?thesis
    using d n u by (auto simp: empty_store_def)
qed

text \<open>
  C1 does not hold for badge instances. On the empty store, two calls of the badge
  instance entry point with the same payload, whose \<^verbatim>\<open>instance_url\<close> is http://a, create
  two rows with the keys 1 and 2: the first call stores a row with a blank url, so the
  lookup of the second call finds nothing. The lemmas \<open>Issuer_idempotent\<close> and
  \<open>BadgeClass_idempotent\<close> above show that the other two entry points, which store the url,
  do return the row of the first call.
\<close>

theorem BadgeInstance_repeat_creates_second_row:
  "\<exists>r1 s1 r2 s2.
     BadgeInstance_from_analyzed_instance sample_env sample_abi no_kwargs empty_store
       = (Inr r1, s1)
   \<and> BadgeInstance_from_analyzed_instance sample_env sample_abi no_kwargs s1 = (Inr r2, s2)
   \<and> pk r1 = 1 \<and> pk r2 = 2
   \<and> map pk (badgeinstances s2) = [1, 2]
   \<and> map url (badgeinstances s2) = [[], []]
   \<and> instance_url sample_abi = ''http://a''"
  by (simp add: eval_defs)

end
